theory Spec2Isabelle
  imports Main "HOL-Library.Word"
begin

unbundle bit_operations_syntax

section \<open>Python values used by the two modules\<close>

text \<open>
  A Python \<open>str\<close> is modelled by an Isabelle \<open>string\<close>: each \<open>char\<close> stands for the
  code point of the same number (U+0000 to U+00FF).  \<open>bytes\<close> are lists of 8-bit words.
  \<open>s.encode("utf-8")\<close> is total on these code points: one byte below 128, two bytes
  from 128 on.
\<close>

type_synonym byte = "8 word"
type_synonym u32 = "32 word"

definition utf8_char :: "char \<Rightarrow> byte list" where
  "utf8_char c =
     (let n = (of_char c :: nat)
      in if n < 128 then [of_nat n] else [of_nat (192 + n div 64), of_nat (128 + n mod 64)])"

definition utf8 :: "string \<Rightarrow> byte list" where
  "utf8 s = concat (map utf8_char s)"

text \<open>\<open>s.split(sep)\<close> for a one-character separator, and \<open>sep.join(parts)\<close>.\<close>

fun split_on :: "char \<Rightarrow> string \<Rightarrow> string list" where
  "split_on sep [] = [[]]"
| "split_on sep (c # cs) =
     (if c = sep then [] # split_on sep cs
      else (case split_on sep cs of
              [] \<Rightarrow> [[c]]
            | p # ps \<Rightarrow> (c # p) # ps))"

fun join :: "string \<Rightarrow> string list \<Rightarrow> string" where
  "join sep [] = []"
| "join sep [p] = p"
| "join sep (p # q # ps) = p @ sep @ join sep (q # ps)"

text \<open>Exceptions raised by the code or by the services it calls.\<close>

datatype py_error =
    KeyError string
  | IndexError
  | SystemExit
  | ServiceError string

text \<open>\<open>xs[i]\<close> raises \<open>IndexError\<close> out of range; \<open>d[k]\<close> raises \<open>KeyError\<close>.\<close>

definition index :: "'a list \<Rightarrow> nat \<Rightarrow> py_error + 'a" where
  "index xs i = (if i < length xs then Inr (xs ! i) else Inl IndexError)"

definition lookup :: "(string \<rightharpoonup> 'v) \<Rightarrow> string \<Rightarrow> py_error + 'v" where
  "lookup d k = (case d k of None \<Rightarrow> Inl (KeyError k) | Some v \<Rightarrow> Inr v)"

text \<open>\<open>str(n)\<close> for a non-negative integer, and a field zero-padded to a width.\<close>

definition digit_char :: "nat \<Rightarrow> char" where
  "digit_char d = char_of (48 + d)"

fun str_nat :: "nat \<Rightarrow> string" where
  "str_nat n = (if n < 10 then [digit_char n] else str_nat (n div 10) @ [digit_char (n mod 10)])"

declare str_nat.simps [simp del]

definition zero_pad :: "nat \<Rightarrow> nat \<Rightarrow> string" where
  "zero_pad width n = replicate (width - length (str_nat n)) (CHR ''0'') @ str_nat n"

section \<open>hashlib.sha256 and hmac\<close>

text \<open>
  SHA-256 as in FIPS 180-4, on 32-bit words.  The round constants are the first 32 bits
  of the fractional parts of the cube roots of the first 64 primes, the initial hash
  value those of the square roots of the first 8 primes.
\<close>

definition K256 :: "u32 list" where
  "K256 =
    [0x428A2F98, 0x71374491, 0xB5C0FBCF, 0xE9B5DBA5, 0x3956C25B, 0x59F111F1, 0x923F82A4, 0xAB1C5ED5,
     0xD807AA98, 0x12835B01, 0x243185BE, 0x550C7DC3, 0x72BE5D74, 0x80DEB1FE, 0x9BDC06A7, 0xC19BF174,
     0xE49B69C1, 0xEFBE4786, 0x0FC19DC6, 0x240CA1CC, 0x2DE92C6F, 0x4A7484AA, 0x5CB0A9DC, 0x76F988DA,
     0x983E5152, 0xA831C66D, 0xB00327C8, 0xBF597FC7, 0xC6E00BF3, 0xD5A79147, 0x06CA6351, 0x14292967,
     0x27B70A85, 0x2E1B2138, 0x4D2C6DFC, 0x53380D13, 0x650A7354, 0x766A0ABB, 0x81C2C92E, 0x92722C85,
     0xA2BFE8A1, 0xA81A664B, 0xC24B8B70, 0xC76C51A3, 0xD192E819, 0xD6990624, 0xF40E3585, 0x106AA070,
     0x19A4C116, 0x1E376C08, 0x2748774C, 0x34B0BCB5, 0x391C0CB3, 0x4ED8AA4A, 0x5B9CCA4F, 0x682E6FF3,
     0x748F82EE, 0x78A5636F, 0x84C87814, 0x8CC70208, 0x90BEFFFA, 0xA4506CEB, 0xBEF9A3F7, 0xC67178F2]"

definition H256 :: "u32 list" where
  "H256 =
    [0x6A09E667, 0xBB67AE85, 0x3C6EF372, 0xA54FF53A, 0x510E527F, 0x9B05688C, 0x1F83D9AB, 0x5BE0CD19]"

definition rotr :: "nat \<Rightarrow> u32 \<Rightarrow> u32" where
  "rotr n x = drop_bit n x OR push_bit (32 - n) x"

definition ssig0 :: "u32 \<Rightarrow> u32" where
  "ssig0 x = rotr 7 x XOR rotr 18 x XOR drop_bit 3 x"

definition ssig1 :: "u32 \<Rightarrow> u32" where
  "ssig1 x = rotr 17 x XOR rotr 19 x XOR drop_bit 10 x"

definition bsig0 :: "u32 \<Rightarrow> u32" where
  "bsig0 x = rotr 2 x XOR rotr 13 x XOR rotr 22 x"

definition bsig1 :: "u32 \<Rightarrow> u32" where
  "bsig1 x = rotr 6 x XOR rotr 11 x XOR rotr 25 x"

definition ch :: "u32 \<Rightarrow> u32 \<Rightarrow> u32 \<Rightarrow> u32" where
  "ch x y z = (x AND y) XOR (NOT x AND z)"

definition maj :: "u32 \<Rightarrow> u32 \<Rightarrow> u32 \<Rightarrow> u32" where
  "maj x y z = (x AND y) XOR (x AND z) XOR (y AND z)"

text \<open>
  One round per constant.  \<open>w\<close> is the sliding window of the last 16 words of the message
  schedule, \<open>v\<close> the eight working variables a to h.
\<close>

fun sha_rounds :: "u32 list \<Rightarrow> u32 list \<Rightarrow> u32 list \<Rightarrow> u32 list" where
  "sha_rounds [] w v = v"
| "sha_rounds (k # ks) w v =
     (let t1 = v ! 7 + bsig1 (v ! 4) + ch (v ! 4) (v ! 5) (v ! 6) + k + w ! 0;
          t2 = bsig0 (v ! 0) + maj (v ! 0) (v ! 1) (v ! 2);
          wn = ssig1 (w ! 14) + w ! 9 + ssig0 (w ! 1) + w ! 0
      in sha_rounds ks (tl w @ [wn])
           [t1 + t2, v ! 0, v ! 1, v ! 2, v ! 3 + t1, v ! 4, v ! 5, v ! 6])"

fun be_words :: "byte list \<Rightarrow> u32 list" where
  "be_words (a # b # c # d # bs) =
     (push_bit 24 (ucast a) OR push_bit 16 (ucast b) OR push_bit 8 (ucast c) OR ucast d)
       # be_words bs"
| "be_words _ = []"

definition sha_compress :: "u32 list \<Rightarrow> byte list \<Rightarrow> u32 list" where
  "sha_compress h block = map2 (+) h (sha_rounds K256 (be_words block) h)"

fun sha_blocks :: "nat \<Rightarrow> u32 list \<Rightarrow> byte list \<Rightarrow> u32 list" where
  "sha_blocks 0 h bs = h"
| "sha_blocks (Suc n) h bs = sha_blocks n (sha_compress h (take 64 bs)) (drop 64 bs)"

definition be_bytes :: "nat \<Rightarrow> 'a::len word \<Rightarrow> byte list" where
  "be_bytes n x = map (\<lambda>i. ucast (drop_bit (8 * i) x)) (rev [0..<n])"

definition sha_pad :: "byte list \<Rightarrow> byte list" where
  "sha_pad m =
     m @ [0x80] @ replicate ((119 - length m mod 64) mod 64) 0
       @ be_bytes 8 (of_nat (8 * length m) :: 64 word)"

text \<open>\<open>hashlib.sha256(m).digest()\<close>\<close>

definition sha256 :: "byte list \<Rightarrow> byte list" where
  "sha256 m =
     (let p = sha_pad m
      in concat (map (be_bytes 4) (sha_blocks (length p div 64) H256 p)))"

text \<open>\<open>.hexdigest()\<close> is the lowercase hexadecimal form of \<open>.digest()\<close>.\<close>

definition hex_alphabet :: string where
  "hex_alphabet = ''0123456789abcdef''"

definition hex_digit :: "nat \<Rightarrow> char" where
  "hex_digit n = hex_alphabet ! n"

definition hex :: "byte list \<Rightarrow> string" where
  "hex bs = concat (map (\<lambda>b. [hex_digit (unat (drop_bit 4 b)), hex_digit (unat (b AND 15))]) bs)"

definition sha256_hexdigest :: "byte list \<Rightarrow> string" where
  "sha256_hexdigest m = hex (sha256 m)"

text \<open>
  \<open>hmac.new(key, msg, hashlib.sha256).digest()\<close> (RFC 2104 with the 64-byte block of
  SHA-256): a key longer than a block is hashed first, then padded with zero bytes.
\<close>

definition hmac_key_block :: "byte list \<Rightarrow> byte list" where
  "hmac_key_block key =
     (let k = (if length key > 64 then sha256 key else key)
      in k @ replicate (64 - length k) 0)"

definition hmac_sha256 :: "byte list \<Rightarrow> byte list \<Rightarrow> byte list" where
  "hmac_sha256 key msg =
     (let kb = hmac_key_block key
      in sha256 (map (\<lambda>b. b XOR 0x5C) kb @ sha256 (map (\<lambda>b. b XOR 0x36) kb @ msg)))"

definition hmac_sha256_hexdigest :: "byte list \<Rightarrow> byte list \<Rightarrow> string" where
  "hmac_sha256_hexdigest key msg = hex (hmac_sha256 key msg)"

section \<open>api/chalicelib/sigv4.py: the pure helpers\<close>

definition NO_ACCESS_KEY_ERROR :: string where
  "NO_ACCESS_KEY_ERROR = ''No access key is available.''"

definition SIGNED_HEADERS :: string where
  "SIGNED_HEADERS = ''host;x-amz-date;x-amz-security-token''"

definition sign :: "byte list \<Rightarrow> string \<Rightarrow> byte list" where
  "sign key msg = hmac_sha256 key (utf8 msg)"

definition get_signature_key :: "string \<Rightarrow> string \<Rightarrow> string \<Rightarrow> string \<Rightarrow> byte list" where
  "get_signature_key key date_stamp region_name service_name =
     (let kdate = sign (utf8 (''AWS4'' @ key)) date_stamp;
          kregion = sign kdate region_name;
          kservice = sign kregion service_name;
          ksigning = sign kservice ''aws4_request''
      in ksigning)"

definition get_canonical_headers :: "string \<Rightarrow> string \<Rightarrow> string \<Rightarrow> string" where
  "get_canonical_headers domain_name amzdate session_token =
     ''host:'' @ domain_name @ [CHR 0x0A] @ ''x-amz-date:'' @ amzdate @ [CHR 0x0A]
       @ ''x-amz-security-token:'' @ session_token @ [CHR 0x0A]"

definition get_authorization_header ::
  "string \<Rightarrow> string \<Rightarrow> string \<Rightarrow> string \<Rightarrow> string \<Rightarrow> string" where
  "get_authorization_header algorithm access_key credential_scope signed_headers signature =
     algorithm @ '' Credential='' @ access_key @ ''/'' @ credential_scope
       @ '', SignedHeaders='' @ signed_headers @ '', Signature='' @ signature"

section \<open>api/chalicelib/sigv4.py: what the module reads and calls\<close>

text \<open>
  The module-level constants, read from the process environment when the module is
  imported.
\<close>

record config =
  AMC_ENDPOINT :: string
  AMC_API_ROLE :: string
  SOLUTION_NAME :: string
  SOLUTION_VERSION :: string

text \<open>
  The \<open>Credentials\<close> entry of the answer of \<open>sts_client.assume_role\<close>.  The two keys
  that the code tests against \<open>None\<close> are optional values.
\<close>

record credentials =
  AccessKeyId :: "string option"
  SecretAccessKey :: "string option"
  SessionToken :: string

text \<open>
  \<open>datetime.datetime.utcnow()\<close> and the two \<open>strftime\<close> formats the code uses
  (\<open>%Y\<close> four digits, the other fields two digits).
\<close>

record datetime =
  year :: nat
  month :: nat
  day :: nat
  hour :: nat
  minute :: nat
  second :: nat

definition strftime_datestamp :: "datetime \<Rightarrow> string" where
  "strftime_datestamp t = zero_pad 4 (year t) @ zero_pad 2 (month t) @ zero_pad 2 (day t)"

definition strftime_amzdate :: "datetime \<Rightarrow> string" where
  "strftime_amzdate t =
     zero_pad 4 (year t) @ zero_pad 2 (month t) @ zero_pad 2 (day t) @ ''T''
       @ zero_pad 2 (hour t) @ zero_pad 2 (minute t) @ zero_pad 2 (second t) @ ''Z''"

text \<open>
  One call of the \<open>requests\<close> package: \<open>getattr(requests, http_method)(request_url,
  headers=headers, data=data)\<close>.  The header dictionary keeps its insertion order.
\<close>

record http_call =
  http_method :: string
  request_url :: string
  call_headers :: "(string \<times> string) list"
  call_data :: "string option"

record response =
  status_code :: nat
  response_text :: string

datatype level = INFO | ERROR

text \<open>What a call does to the outside world, in order.\<close>

datatype event =
    Log level string
  | AssumeRole string string
  | HttpCall http_call

text \<open>
  The services behind the module: STS, the process environment at call time, the clock
  and the HTTP transport.  Each service either answers or raises.
\<close>

record world =
  assume_role :: "string \<Rightarrow> string \<Rightarrow> py_error + credentials"
  environ :: "string \<rightharpoonup> string"
  utcnow :: datetime
  http :: "http_call \<Rightarrow> py_error + response"

definition get_amc_api_tokens ::
  "config \<Rightarrow> world \<Rightarrow> event list \<times> (py_error + string option \<times> string option \<times> string)" where
  "get_amc_api_tokens cfg w =
     (let role_session_name = ''amcufa_api_handler'';
          ev = [Log INFO (''assuming role '' @ AMC_API_ROLE cfg),
                AssumeRole (AMC_API_ROLE cfg) role_session_name]
      in case assume_role w (AMC_API_ROLE cfg) role_session_name of
           Inl e \<Rightarrow> (ev, Inl e)
         | Inr assumed_role \<Rightarrow>
             (ev, Inr (AccessKeyId assumed_role, SecretAccessKey assumed_role,
                       SessionToken assumed_role)))"

text \<open>\<open>if data:\<close> is false for \<open>None\<close> and for the empty string.\<close>

definition send_request ::
  "world \<Rightarrow> string \<Rightarrow> (string \<times> string) list \<Rightarrow> string \<Rightarrow> string option
     \<Rightarrow> event list \<times> (py_error + response)" where
  "send_request w url hdrs meth body =
     (let call = \<lparr>http_method = meth, request_url = url, call_headers = hdrs,
                  call_data = (if body = None \<or> body = Some [] then None else body)\<rparr>;
          ev = [Log INFO (CHR 0x0A # ''BEGIN REQUEST+++++++++++++++++++++++++++++++++++''),
                Log INFO (''Request URL = '' @ url),
                HttpCall call]
      in case http w call of
           Inl e \<Rightarrow> (ev, Inl e)
         | Inr r \<Rightarrow>
             (ev @ [Log INFO (CHR 0x0A # ''RESPONSE+++++++++++++++++++++++++++++++++++''),
                    Log INFO (''Response code: '' @ str_nat (status_code r) @ [CHR 0x0A]),
                    Log INFO (response_text r)],
              Inr r))"

text \<open>
  The local variables of \<open>delete\<close>, \<open>get\<close> and \<open>post\<close> from the time stamp down to the
  header dictionary.
\<close>

record locals =
  amzdate :: string
  datestamp :: string
  canonical_uri :: string
  canonical_querystring :: string
  canonical_headers :: string
  signed_headers :: string
  payload_hash :: string
  canonical_request :: string
  algorithm :: string
  credential_scope :: string
  string_to_sign :: string
  signing_key :: "byte list"
  signature :: string
  authorization_header :: string
  headers :: "(string \<times> string) list"

definition delete_locals ::
  "config \<Rightarrow> string \<Rightarrow> string \<Rightarrow> string \<Rightarrow> string \<Rightarrow> datetime \<Rightarrow> string \<Rightarrow> string \<Rightarrow> locals" where
  "delete_locals cfg region access_key secret_key session_token t endpoint domain_name =
     (let method = ''DELETE'';
          service = ''execute-api'';
          amzdate = strftime_amzdate t;
          datestamp = strftime_datestamp t;
          canonical_uri = ''/'' @ join ''/'' (drop 3 (split_on (CHR ''/'') endpoint));
          canonical_querystring = '''';
          canonical_headers = get_canonical_headers domain_name amzdate session_token;
          signed_headers = SIGNED_HEADERS;
          payload_hash = sha256_hexdigest (utf8 '''');
          canonical_request =
            method @ [CHR 0x0A] @ canonical_uri @ [CHR 0x0A] @ canonical_querystring @ [CHR 0x0A]
              @ canonical_headers @ [CHR 0x0A] @ signed_headers @ [CHR 0x0A] @ payload_hash;
          algorithm = ''AWS4-HMAC-SHA256'';
          credential_scope = datestamp @ ''/'' @ region @ ''/'' @ service @ ''/'' @ ''aws4_request'';
          string_to_sign =
            algorithm @ [CHR 0x0A] @ amzdate @ [CHR 0x0A] @ credential_scope @ [CHR 0x0A]
              @ sha256_hexdigest (utf8 canonical_request);
          signing_key = get_signature_key secret_key datestamp region service;
          signature = hmac_sha256_hexdigest signing_key (utf8 string_to_sign);
          authorization_header =
            get_authorization_header algorithm access_key credential_scope signed_headers signature;
          headers =
            [(''Authorization'', authorization_header),
             (''x-amz-date'', amzdate),
             (''x-amz-security-token'', session_token),
             (''x-amzn-service-name'', SOLUTION_NAME cfg),
             (''x-amzn-service-version'', SOLUTION_VERSION cfg)]
      in \<lparr>amzdate = amzdate, datestamp = datestamp, canonical_uri = canonical_uri,
          canonical_querystring = canonical_querystring, canonical_headers = canonical_headers,
          signed_headers = signed_headers, payload_hash = payload_hash,
          canonical_request = canonical_request, algorithm = algorithm,
          credential_scope = credential_scope, string_to_sign = string_to_sign,
          signing_key = signing_key, signature = signature,
          authorization_header = authorization_header, headers = headers\<rparr>)"

definition get_locals ::
  "config \<Rightarrow> string \<Rightarrow> string \<Rightarrow> string \<Rightarrow> string \<Rightarrow> datetime \<Rightarrow> string \<Rightarrow> string \<Rightarrow> string
     \<Rightarrow> locals" where
  "get_locals cfg region access_key secret_key session_token t endpoint domain_name
       request_parameters =
     (let method = ''GET'';
          service = ''execute-api'';
          amzdate = strftime_amzdate t;
          datestamp = strftime_datestamp t;
          canonical_uri = ''/'' @ join ''/'' (drop 3 (split_on (CHR ''/'') endpoint));
          canonical_querystring = request_parameters;
          canonical_headers = get_canonical_headers domain_name amzdate session_token;
          signed_headers = SIGNED_HEADERS;
          payload_hash = sha256_hexdigest (utf8 '''');
          canonical_request =
            method @ [CHR 0x0A] @ canonical_uri @ [CHR 0x0A] @ canonical_querystring @ [CHR 0x0A]
              @ canonical_headers @ [CHR 0x0A] @ signed_headers @ [CHR 0x0A] @ payload_hash;
          algorithm = ''AWS4-HMAC-SHA256'';
          credential_scope = datestamp @ ''/'' @ region @ ''/'' @ service @ ''/'' @ ''aws4_request'';
          string_to_sign =
            algorithm @ [CHR 0x0A] @ amzdate @ [CHR 0x0A] @ credential_scope @ [CHR 0x0A]
              @ sha256_hexdigest (utf8 canonical_request);
          signing_key = get_signature_key secret_key datestamp region service;
          signature = hmac_sha256_hexdigest signing_key (utf8 string_to_sign);
          authorization_header =
            get_authorization_header algorithm access_key credential_scope signed_headers signature;
          headers =
            [(''Authorization'', authorization_header),
             (''x-amz-date'', amzdate),
             (''x-amz-security-token'', session_token),
             (''x-amzn-service-name'', SOLUTION_NAME cfg),
             (''x-amzn-service-version'', SOLUTION_VERSION cfg)]
      in \<lparr>amzdate = amzdate, datestamp = datestamp, canonical_uri = canonical_uri,
          canonical_querystring = canonical_querystring, canonical_headers = canonical_headers,
          signed_headers = signed_headers, payload_hash = payload_hash,
          canonical_request = canonical_request, algorithm = algorithm,
          credential_scope = credential_scope, string_to_sign = string_to_sign,
          signing_key = signing_key, signature = signature,
          authorization_header = authorization_header, headers = headers\<rparr>)"

definition post_locals ::
  "config \<Rightarrow> string \<Rightarrow> string \<Rightarrow> string \<Rightarrow> string \<Rightarrow> datetime \<Rightarrow> string \<Rightarrow> string \<Rightarrow> string
     \<Rightarrow> locals" where
  "post_locals cfg region access_key secret_key session_token t endpoint domain_name body_data =
     (let method = ''POST'';
          service = ''execute-api'';
          amzdate = strftime_amzdate t;
          datestamp = strftime_datestamp t;
          canonical_uri = ''/'' @ join ''/'' (drop 3 (split_on (CHR ''/'') endpoint));
          canonical_querystring = '''';
          canonical_headers = get_canonical_headers domain_name amzdate session_token;
          signed_headers = SIGNED_HEADERS;
          payload_hash = sha256_hexdigest (utf8 body_data);
          canonical_request =
            method @ [CHR 0x0A] @ canonical_uri @ [CHR 0x0A] @ canonical_querystring @ [CHR 0x0A]
              @ canonical_headers @ [CHR 0x0A] @ signed_headers @ [CHR 0x0A] @ payload_hash;
          algorithm = ''AWS4-HMAC-SHA256'';
          credential_scope = datestamp @ ''/'' @ region @ ''/'' @ service @ ''/'' @ ''aws4_request'';
          string_to_sign =
            algorithm @ [CHR 0x0A] @ amzdate @ [CHR 0x0A] @ credential_scope @ [CHR 0x0A]
              @ sha256_hexdigest (utf8 canonical_request);
          signing_key = get_signature_key secret_key datestamp region service;
          signature = hmac_sha256_hexdigest signing_key (utf8 string_to_sign);
          authorization_header =
            get_authorization_header algorithm access_key credential_scope signed_headers signature;
          headers =
            [(''Authorization'', authorization_header),
             (''x-amz-date'', amzdate),
             (''x-amz-security-token'', session_token),
             (''x-amzn-service-name'', SOLUTION_NAME cfg),
             (''x-amzn-service-version'', SOLUTION_VERSION cfg)]
      in \<lparr>amzdate = amzdate, datestamp = datestamp, canonical_uri = canonical_uri,
          canonical_querystring = canonical_querystring, canonical_headers = canonical_headers,
          signed_headers = signed_headers, payload_hash = payload_hash,
          canonical_request = canonical_request, algorithm = algorithm,
          credential_scope = credential_scope, string_to_sign = string_to_sign,
          signing_key = signing_key, signature = signature,
          authorization_header = authorization_header, headers = headers\<rparr>)"

text \<open>
  The three operations.  Each returns what it did to the outside world and either the
  exception that ended it or the response of the transport.  \<open>sys.exit()\<close> raises
  \<open>SystemExit\<close>.
\<close>

definition delete :: "config \<Rightarrow> world \<Rightarrow> string \<Rightarrow> event list \<times> (py_error + response)" where
  "delete cfg w path =
     (case get_amc_api_tokens cfg w of
        (ev, Inl e) \<Rightarrow> (ev, Inl e)
      | (ev, Inr (access_key, secret_key, session_token)) \<Rightarrow>
          (case lookup (environ w) ''AWS_REGION'' of
             Inl e \<Rightarrow> (ev, Inl e)
           | Inr region \<Rightarrow>
               (let endpoint = AMC_ENDPOINT cfg @ path
                in case index (split_on (CHR ''/'') endpoint) 2 of
                     Inl e \<Rightarrow> (ev, Inl e)
                   | Inr domain_name \<Rightarrow>
                       (case (access_key, secret_key) of
                          (Some ak, Some sk) \<Rightarrow>
                            (let l = delete_locals cfg region ak sk session_token (utcnow w)
                                       endpoint domain_name;
                                 sent = send_request w endpoint (headers l) ''delete'' None
                             in (ev @ fst sent, snd sent))
                        | _ \<Rightarrow> (ev @ [Log ERROR NO_ACCESS_KEY_ERROR], Inl SystemExit)))))"

definition get ::
  "config \<Rightarrow> world \<Rightarrow> string \<Rightarrow> string \<Rightarrow> event list \<times> (py_error + response)" where
  "get cfg w path request_parameters =
     (case get_amc_api_tokens cfg w of
        (ev, Inl e) \<Rightarrow> (ev, Inl e)
      | (ev, Inr (access_key, secret_key, session_token)) \<Rightarrow>
          (case lookup (environ w) ''AWS_REGION'' of
             Inl e \<Rightarrow> (ev, Inl e)
           | Inr region \<Rightarrow>
               (let endpoint = AMC_ENDPOINT cfg @ path
                in case index (split_on (CHR ''/'') endpoint) 2 of
                     Inl e \<Rightarrow> (ev, Inl e)
                   | Inr domain_name \<Rightarrow>
                       (case (access_key, secret_key) of
                          (Some ak, Some sk) \<Rightarrow>
                            (let l = get_locals cfg region ak sk session_token (utcnow w)
                                       endpoint domain_name request_parameters;
                                 sent = send_request w
                                          (endpoint @ ''?'' @ canonical_querystring l)
                                          (headers l) ''get'' None
                             in (ev @ fst sent, snd sent))
                        | _ \<Rightarrow> (ev @ [Log ERROR ''NO_ACCESS_KEY_ERROR''], Inl SystemExit)))))"

definition post ::
  "config \<Rightarrow> world \<Rightarrow> string \<Rightarrow> string \<Rightarrow> event list \<times> (py_error + response)" where
  "post cfg w path body_data =
     (case get_amc_api_tokens cfg w of
        (ev, Inl e) \<Rightarrow> (ev, Inl e)
      | (ev, Inr (access_key, secret_key, session_token)) \<Rightarrow>
          (case lookup (environ w) ''AWS_REGION'' of
             Inl e \<Rightarrow> (ev, Inl e)
           | Inr region \<Rightarrow>
               (let endpoint = AMC_ENDPOINT cfg @ path
                in case index (split_on (CHR ''/'') endpoint) 2 of
                     Inl e \<Rightarrow> (ev, Inl e)
                   | Inr domain_name \<Rightarrow>
                       (case (access_key, secret_key) of
                          (Some ak, Some sk) \<Rightarrow>
                            (let l = post_locals cfg region ak sk session_token (utcnow w)
                                       endpoint domain_name body_data;
                                 sent = send_request w endpoint (headers l) ''post''
                                          (Some body_data)
                             in (ev @ fst sent, snd sent))
                        | _ \<Rightarrow> (ev @ [Log ERROR ''NO_ACCESS_KEY_ERROR''], Inl SystemExit)))))"

text \<open>The HTTP requests and the calls to STS in a trace.\<close>

fun http_calls :: "event list \<Rightarrow> http_call list" where
  "http_calls [] = []"
| "http_calls (HttpCall c # es) = c # http_calls es"
| "http_calls (_ # es) = http_calls es"

fun is_network :: "event \<Rightarrow> bool" where
  "is_network (Log _ _) = False"
| "is_network (AssumeRole _ _) = True"
| "is_network (HttpCall _) = True"

section \<open>helper/website_helper.py\<close>

text \<open>
  The CloudFormation custom-resource event is a dictionary; a field is \<open>None\<close> when the
  key is absent.  Property values are strings.  Dictionaries that the code builds and
  hands to \<open>json.dumps\<close> are kept as JSON values.
\<close>

record cfn_event =
  RequestType :: "string option"
  ResponseURL :: "string option"
  StackId :: "string option"
  RequestId :: "string option"
  LogicalResourceId :: "string option"
  ResourceProperties :: "(string \<rightharpoonup> string) option"

record lambda_context =
  log_stream_name :: string

datatype json = Str string | Obj "(string \<times> json) list"

text \<open>
  The calls that leave the process, in order: S3 copy (source bucket, source key, target
  bucket, target key), S3 put_object, the two calls of \<open>purge_bucket\<close>, and the PUT of a
  response body to the event's ResponseURL.  Log lines and \<open>print\<close> are not recorded.
\<close>

datatype helper_event =
    S3Copy string string string string
  | S3PutObject string string json
  | S3PutBucketLogging string
  | S3DeleteAll string
  | CfnPut string json

text \<open>
  The services behind the helper.  A service call returns \<open>Some message\<close> when it raises
  an exception with that message and \<open>None\<close> when it returns.  \<open>manifest\<close> is the list of
  keys of \<open>./webapp-manifest.json\<close>, or the message of the exception that opening or
  parsing the file raises.
\<close>

record helper_world =
  os_environ :: "string \<rightharpoonup> string"
  manifest :: "string + string list"
  s3_copy :: "string \<Rightarrow> string \<Rightarrow> string \<Rightarrow> string \<Rightarrow> string option"
  s3_put_object :: "string \<Rightarrow> string \<Rightarrow> json \<Rightarrow> string option"
  s3_put_bucket_logging :: "string \<Rightarrow> string option"
  s3_delete_all :: "string \<Rightarrow> string option"
  urlopen :: "string \<Rightarrow> json \<Rightarrow> string option"

definition error_response_str :: string where
  "error_response_str = ''Unexpected event received from CloudFormation''"

text \<open>The dictionary that \<open>send_response\<close> serialises as the response body.\<close>

definition response_body :: "string \<Rightarrow> string \<Rightarrow> string \<Rightarrow> string \<Rightarrow> string \<Rightarrow> json \<Rightarrow> json" where
  "response_body log_stream stack_id request_id logical_resource_id response_status
       response_data =
     Obj [(''Status'', Str response_status),
          (''Reason'', Str (''See the details in CloudWatch Log Stream: '' @ log_stream)),
          (''PhysicalResourceId'', Str log_stream),
          (''StackId'', Str stack_id),
          (''RequestId'', Str request_id),
          (''LogicalResourceId'', Str logical_resource_id),
          (''Data'', response_data)]"

definition send_response ::
  "helper_world \<Rightarrow> cfn_event \<Rightarrow> lambda_context \<Rightarrow> string \<Rightarrow> json
     \<Rightarrow> helper_event list \<times> (py_error + unit)" where
  "send_response w event ctx response_status response_data =
     (case StackId event of
        None \<Rightarrow> ([], Inl (KeyError ''StackId''))
      | Some stack_id \<Rightarrow>
     (case RequestId event of
        None \<Rightarrow> ([], Inl (KeyError ''RequestId''))
      | Some request_id \<Rightarrow>
     (case LogicalResourceId event of
        None \<Rightarrow> ([], Inl (KeyError ''LogicalResourceId''))
      | Some logical_resource_id \<Rightarrow>
          (let body = response_body (log_stream_name ctx) stack_id request_id
                        logical_resource_id response_status response_data
           in case ResponseURL event of
                None \<Rightarrow> ([], Inl (KeyError ''ResponseURL''))
              | Some url \<Rightarrow>
                  (case urlopen w url body of
                     Some msg \<Rightarrow> ([CfnPut url body], Inl (ServiceError msg))
                   | None \<Rightarrow> ([CfnPut url body], Inr ()))))))"

definition write_to_s3 ::
  "helper_world \<Rightarrow> cfn_event \<Rightarrow> lambda_context \<Rightarrow> string \<Rightarrow> string \<Rightarrow> json
     \<Rightarrow> helper_event list \<times> (py_error + unit)" where
  "write_to_s3 w event ctx bucket key body =
     (case s3_put_object w bucket key body of
        Some msg \<Rightarrow>
          (let sent = send_response w event ctx ''FAILED''
                        (Obj [(''Message'',
                               Str ''Failed to write file to s3 after variable replacement'')])
           in (S3PutObject bucket key body # fst sent, snd sent))
      | None \<Rightarrow> ([S3PutObject bucket key body], Inr ()))"

text \<open>The \<open>for key in manifest\<close> loop of \<open>copy_source\<close>.\<close>

fun copy_keys ::
  "helper_world \<Rightarrow> cfn_event \<Rightarrow> lambda_context \<Rightarrow> string \<Rightarrow> string \<Rightarrow> string \<Rightarrow> json
     \<Rightarrow> string list \<Rightarrow> helper_event list \<times> (py_error + unit)" where
  "copy_keys w event ctx source_bucket source_key website_bucket new_variables [] = ([], Inr ())"
| "copy_keys w event ctx source_bucket source_key website_bucket new_variables (key # keys) =
     (case s3_copy w source_bucket (source_key @ ''/'' @ key) website_bucket key of
        Some msg \<Rightarrow>
          ([S3Copy source_bucket (source_key @ ''/'' @ key) website_bucket key],
           Inl (ServiceError msg))
      | None \<Rightarrow>
          (let written =
                 (if key = ''runtimeConfig.json''
                  then write_to_s3 w event ctx website_bucket key new_variables
                  else ([], Inr ()))
           in case snd written of
                Inl e \<Rightarrow>
                  (S3Copy source_bucket (source_key @ ''/'' @ key) website_bucket key
                     # fst written, Inl e)
              | Inr _ \<Rightarrow>
                  (let rest = copy_keys w event ctx source_bucket source_key website_bucket
                                new_variables keys
                   in (S3Copy source_bucket (source_key @ ''/'' @ key) website_bucket key
                         # fst written @ fst rest, snd rest))))"

text \<open>
  The body of the inner \<open>try\<close> of \<open>copy_source\<close>: when one of the seven environment
  variables is missing nothing is copied; otherwise every key of the manifest is copied.
\<close>

definition copy_body ::
  "helper_world \<Rightarrow> cfn_event \<Rightarrow> lambda_context \<Rightarrow> string \<Rightarrow> string \<Rightarrow> string
     \<Rightarrow> helper_event list \<times> (py_error + unit)" where
  "copy_body w event ctx source_bucket source_key website_bucket =
     (case (os_environ w ''UserPoolId'', os_environ w ''AwsRegion'',
            os_environ w ''PoolClientId'', os_environ w ''IdentityPoolId'',
            os_environ w ''DataBucketName'', os_environ w ''ArtifactBucketName'',
            os_environ w ''EncryptionMode'') of
        (Some user_pool_id, Some region, Some client_id, Some identity_id,
         Some data_bucket_name, Some artifact_bucket_name, Some encryption_mode) \<Rightarrow>
          (let new_variables =
                 Obj [(''AWS_REGION'', Str region),
                      (''USER_POOL_ID'', Str user_pool_id),
                      (''USER_POOL_CLIENT_ID'', Str client_id),
                      (''IDENTITY_POOL_ID'', Str identity_id),
                      (''DATA_BUCKET_NAME'', Str data_bucket_name),
                      (''ARTIFACT_BUCKET_NAME'', Str artifact_bucket_name),
                      (''ENCRYPTION_MODE'', Str encryption_mode)]
           in case manifest w of
                Inl msg \<Rightarrow> ([], Inl (ServiceError msg))
              | Inr keys \<Rightarrow>
                  copy_keys w event ctx source_bucket source_key website_bucket
                    new_variables keys)
      | _ \<Rightarrow> ([], Inr ()))"

text \<open>The first \<open>try\<close> of \<open>copy_source\<close>: the three values read from the event.\<close>

definition copy_source_values :: "cfn_event \<Rightarrow> py_error + string \<times> string \<times> string" where
  "copy_source_values event =
     (case ResourceProperties event of
        None \<Rightarrow> Inl (KeyError ''ResourceProperties'')
      | Some props \<Rightarrow>
     (case props ''WebsiteCodeBucket'' of
        None \<Rightarrow> Inl (KeyError ''WebsiteCodeBucket'')
      | Some source_bucket \<Rightarrow>
     (case props ''WebsiteCodePrefix'' of
        None \<Rightarrow> Inl (KeyError ''WebsiteCodePrefix'')
      | Some source_key \<Rightarrow>
     (case props ''DeploymentBucket'' of
        None \<Rightarrow> Inl (KeyError ''DeploymentBucket'')
      | Some deployment_bucket \<Rightarrow>
          (case index (split_on (CHR ''.'') deployment_bucket) 0 of
             Inl e \<Rightarrow> Inl e
           | Inr website_bucket \<Rightarrow> Inr (source_bucket, source_key, website_bucket))))))"

definition copy_source ::
  "helper_world \<Rightarrow> cfn_event \<Rightarrow> lambda_context \<Rightarrow> helper_event list \<times> (py_error + unit)" where
  "copy_source w event ctx =
     (case copy_source_values event of
        Inl (KeyError k) \<Rightarrow>
          send_response w event ctx ''FAILED''
            (Obj [(''Message'',
                   Str ''Failed to retrieve required values from the CloudFormation event'')])
      | Inl e \<Rightarrow> ([], Inl e)
      | Inr (source_bucket, source_key, website_bucket) \<Rightarrow>
          (let body = copy_body w event ctx source_bucket source_key website_bucket;
               handled =
                 (case snd body of
                    Inl ex \<Rightarrow>
                      send_response w event ctx ''FAILED''
                        (Obj [(''Message'', Str error_response_str)])
                  | Inr _ \<Rightarrow> ([], Inr ()))
           in case snd handled of
                Inl e \<Rightarrow> (fst body @ fst handled, Inl e)
              | Inr _ \<Rightarrow>
                  (let sent = send_response w event ctx ''SUCCESS''
                                (Obj [(''Message'', Str ''Resource creation successful!'')])
                   in (fst body @ fst handled @ fst sent, snd sent))))"

text \<open>The body of the \<open>try\<close> of \<open>purge_bucket\<close>, then the function.\<close>

definition purge_body :: "helper_world \<Rightarrow> cfn_event \<Rightarrow> helper_event list \<times> (py_error + unit)" where
  "purge_body w event =
     (case ResourceProperties event of
        None \<Rightarrow> ([], Inl (KeyError ''ResourceProperties''))
      | Some props \<Rightarrow>
     (case props ''DeploymentBucket'' of
        None \<Rightarrow> ([], Inl (KeyError ''DeploymentBucket''))
      | Some deployment_bucket \<Rightarrow>
     (case index (split_on (CHR ''.'') deployment_bucket) 0 of
        Inl e \<Rightarrow> ([], Inl e)
      | Inr bucket_name \<Rightarrow>
     (case s3_put_bucket_logging w bucket_name of
        Some msg \<Rightarrow> ([S3PutBucketLogging bucket_name], Inl (ServiceError msg))
      | None \<Rightarrow>
     (case s3_delete_all w bucket_name of
        Some msg \<Rightarrow>
          ([S3PutBucketLogging bucket_name, S3DeleteAll bucket_name], Inl (ServiceError msg))
      | None \<Rightarrow> ([S3PutBucketLogging bucket_name, S3DeleteAll bucket_name], Inr ()))))))"

definition purge_bucket ::
  "helper_world \<Rightarrow> cfn_event \<Rightarrow> lambda_context \<Rightarrow> helper_event list \<times> (py_error + unit)" where
  "purge_bucket w event ctx =
     (let body = purge_body w event;
          sent =
            (case snd body of
               Inl ex \<Rightarrow>
                 send_response w event ctx ''FAILED''
                   (Obj [(''Message'', Str error_response_str)])
             | Inr _ \<Rightarrow>
                 send_response w event ctx ''SUCCESS''
                   (Obj [(''Message'', Str ''Resource creation successful!'')]))
      in (fst body @ fst sent, snd sent))"

text \<open>\<open>str(ex)\<close> for the exceptions of the model.\<close>

fun str_exception :: "py_error \<Rightarrow> string" where
  "str_exception (KeyError k) = [CHR 0x27] @ k @ [CHR 0x27]"
| "str_exception IndexError = ''list index out of range''"
| "str_exception SystemExit = []"
| "str_exception (ServiceError msg) = msg"

definition lambda_handler ::
  "helper_world \<Rightarrow> cfn_event \<Rightarrow> lambda_context \<Rightarrow> helper_event list \<times> (py_error + unit)" where
  "lambda_handler w event ctx =
     (let tried =
            (case RequestType event of
               None \<Rightarrow> ([], Inl (KeyError ''RequestType''))
             | Some request_type \<Rightarrow>
                 (if request_type = ''Create'' then copy_source w event ctx
                  else if request_type = ''Update'' then copy_source w event ctx
                  else if request_type = ''Delete'' then
                    (let purged = purge_bucket w event ctx
                     in case snd purged of
                          Inl e \<Rightarrow> purged
                        | Inr _ \<Rightarrow>
                            (let sent = send_response w event ctx ''SUCCESS''
                                          (Obj [(''Message'',
                                                 Str ''Resource deletion successful!'')])
                             in (fst purged @ fst sent, snd sent)))
                  else send_response w event ctx ''FAILED''
                         (Obj [(''Message'', Str error_response_str)])))
      in case snd tried of
           Inl ex \<Rightarrow>
             (let sent = send_response w event ctx ''FAILED''
                           (Obj [(''Message'',
                                  Str (''Exception during processing: '' @ str_exception ex))])
              in (fst tried @ fst sent, snd sent))
         | Inr _ \<Rightarrow> tried)"

text \<open>The status of each response body put to CloudFormation, in order.\<close>

fun statuses :: "helper_event list \<Rightarrow> string list" where
  "statuses [] = []"
| "statuses (CfnPut url (Obj ((k, Str st) # kvs)) # es) = st # statuses es"
| "statuses (_ # es) = statuses es"

section \<open>The properties, as the specification words them\<close>

text \<open>
  Header names are compared by code point; \<open>lower_char\<close> is \<open>str.lower\<close> on one
  character of the modelled range.
\<close>

definition lower_char :: "char \<Rightarrow> char" where
  "lower_char c =
     (let n = (of_char c :: nat)
      in if 65 \<le> n \<and> n \<le> 90 then char_of (n + 32)
         else if 192 \<le> n \<and> n \<le> 222 then (if n = 215 then c else char_of (n + 32))
         else c)"

fun str_less :: "string \<Rightarrow> string \<Rightarrow> bool" where
  "str_less [] [] = False"
| "str_less [] (y # ys) = True"
| "str_less (x # xs) [] = False"
| "str_less (x # xs) (y # ys) =
     (if x = y then str_less xs ys else (of_char x :: nat) < of_char y)"

text \<open>
  The canonical request of the specification: six fields joined by newlines, the
  header block with its three lines, then one empty line before the signed-headers
  field.
\<close>

definition canonical_request_spec :: "string \<Rightarrow> string \<Rightarrow> string \<Rightarrow> locals \<Rightarrow> bool" where
  "canonical_request_spec method domain_name session_token l =
     (canonical_request l =
        method @ [CHR 0x0A] @ canonical_uri l @ [CHR 0x0A] @ canonical_querystring l @ [CHR 0x0A]
          @ ''host:'' @ domain_name @ [CHR 0x0A]
          @ ''x-amz-date:'' @ amzdate l @ [CHR 0x0A]
          @ ''x-amz-security-token:'' @ session_token @ [CHR 0x0A]
          @ [CHR 0x0A] @ ''host;x-amz-date;x-amz-security-token'' @ [CHR 0x0A] @ payload_hash l)"

text \<open>
  Step 5 to 7 of the specification's signer: credential scope, string to sign, and the
  signature as 64 lowercase hexadecimal characters.
\<close>

definition string_to_sign_spec :: "string \<Rightarrow> string \<Rightarrow> datetime \<Rightarrow> locals \<Rightarrow> bool" where
  "string_to_sign_spec region secret_key t l =
     (credential_scope l
        = join ''/'' [strftime_datestamp t, region, ''execute-api'', ''aws4_request'']
      \<and> string_to_sign l
        = ''AWS4-HMAC-SHA256'' @ [CHR 0x0A] @ strftime_amzdate t @ [CHR 0x0A]
            @ credential_scope l @ [CHR 0x0A] @ hex (sha256 (utf8 (canonical_request l)))
      \<and> signature l
        = hex (hmac_sha256
                 (get_signature_key secret_key (strftime_datestamp t) region ''execute-api'')
                 (utf8 (string_to_sign l)))
      \<and> length (signature l) = 64
      \<and> set (signature l) \<subseteq> set hex_alphabet)"

text \<open>
  The Authorization header of the specification and the five headers of the request;
  \<open>calls\<close> are the HTTP requests that the operation made.
\<close>

definition authorization_spec ::
  "config \<Rightarrow> string \<Rightarrow> string \<Rightarrow> locals \<Rightarrow> http_call list \<Rightarrow> bool" where
  "authorization_spec cfg access_key session_token l calls =
     (authorization_header l
        = ''AWS4-HMAC-SHA256'' @ '' Credential='' @ access_key @ ''/'' @ credential_scope l
            @ '', SignedHeaders='' @ ''host;x-amz-date;x-amz-security-token''
            @ '', Signature='' @ signature l
      \<and> headers l
        = [(''Authorization'', authorization_header l),
           (''x-amz-date'', amzdate l),
           (''x-amz-security-token'', session_token),
           (''x-amzn-service-name'', SOLUTION_NAME cfg),
           (''x-amzn-service-version'', SOLUTION_VERSION cfg)]
      \<and> map call_headers calls = [headers l])"

text \<open>
  What is dispatched: the canonical query string that was signed, and the one request
  with its verb, URL, headers and body.
\<close>

definition dispatch_spec ::
  "string \<Rightarrow> string \<Rightarrow> string \<Rightarrow> string option \<Rightarrow> locals \<Rightarrow> http_call list \<Rightarrow> bool" where
  "dispatch_spec meth url query body l calls =
     (canonical_querystring l = query
      \<and> calls = [\<lparr>http_method = meth, request_url = url, call_headers = headers l,
                    call_data = body\<rparr>])"

text \<open>
  An operation that ends with an exception and has sent no request.  The exception is
  the first that the code meets: the missing region, the endpoint with fewer than three
  parts, or \<open>sys.exit()\<close>.
\<close>

definition aborts_without_request ::
  "config \<Rightarrow> world \<Rightarrow> string \<Rightarrow> event list \<times> (py_error + response) \<Rightarrow> bool" where
  "aborts_without_request cfg w path r =
     (http_calls (fst r) = []
      \<and> snd r =
          Inl (if environ w ''AWS_REGION'' = None then KeyError ''AWS_REGION''
               else if length (split_on (CHR ''/'') (AMC_ENDPOINT cfg @ path)) < 3
               then IndexError
               else SystemExit))"

text \<open>
  The payload hash of a call: the value of \<open>payload_hash\<close>, which is also the last field
  of the canonical request.
\<close>

definition payload_hash_spec :: "string \<Rightarrow> locals \<Rightarrow> bool" where
  "payload_hash_spec digest l =
     (payload_hash l = digest
      \<and> drop (length (canonical_request l) - length digest) (canonical_request l) = digest)"

section \<open>Example inputs\<close>

text \<open>
  A configuration, one with an endpoint that has no scheme, and a world whose STS
  returns the given keys and whose transport answers 200.
\<close>

definition example_config :: config where
  "example_config =
     \<lparr>AMC_ENDPOINT = ''https://abc123.execute-api.us-east-1.amazonaws.com/prod'',
      AMC_API_ROLE = ''arn:aws:iam::123456789012:role/amc-api'',
      SOLUTION_NAME = ''amcufa'',
      SOLUTION_VERSION = ''v1.0.0''\<rparr>"

definition malformed_config :: config where
  "malformed_config =
     \<lparr>AMC_ENDPOINT = ''abc123.execute-api.us-east-1.amazonaws.com'',
      AMC_API_ROLE = ''arn:aws:iam::123456789012:role/amc-api'',
      SOLUTION_NAME = ''amcufa'',
      SOLUTION_VERSION = ''v1.0.0''\<rparr>"

definition example_world :: "string option \<Rightarrow> string option \<Rightarrow> world" where
  "example_world access_key secret_key =
     \<lparr>assume_role = (\<lambda>role session.
        Inr \<lparr>AccessKeyId = access_key, SecretAccessKey = secret_key, SessionToken = ''token''\<rparr>),
      environ = [''AWS_REGION'' \<mapsto> ''us-east-1''],
      utcnow = \<lparr>year = 2024, month = 5, day = 17, hour = 9, minute = 30, second = 5\<rparr>,
      http = (\<lambda>call. Inr \<lparr>status_code = 200, response_text = ''{}''\<rparr>)\<rparr>"

text \<open>
  A Create event, and a helper world in which every S3 copy raises and the response
  callbacks are delivered.
\<close>

definition example_event :: cfn_event where
  "example_event =
     \<lparr>RequestType = Some ''Create'',
      ResponseURL = Some ''https://cloudformation-custom-resource-response.example/put'',
      StackId = Some ''arn:aws:cloudformation:us-east-1:123456789012:stack/amcufa/1'',
      RequestId = Some ''request-1'',
      LogicalResourceId = Some ''CopyWebSource'',
      ResourceProperties =
        Some [''WebsiteCodeBucket'' \<mapsto> ''solutions-bucket'',
              ''WebsiteCodePrefix'' \<mapsto> ''amcufa/v1.0.0/website'',
              ''DeploymentBucket'' \<mapsto> ''web-bucket.s3.us-east-1.amazonaws.com'']\<rparr>"

definition example_context :: lambda_context where
  "example_context = \<lparr>log_stream_name = ''2024/05/17/[$LATEST]abcdef''\<rparr>"

definition failing_copy_world :: helper_world where
  "failing_copy_world =
     \<lparr>os_environ =
        [''UserPoolId'' \<mapsto> ''pool'', ''AwsRegion'' \<mapsto> ''us-east-1'',
         ''PoolClientId'' \<mapsto> ''client'', ''IdentityPoolId'' \<mapsto> ''identity'',
         ''DataBucketName'' \<mapsto> ''data'', ''ArtifactBucketName'' \<mapsto> ''artifacts'',
         ''EncryptionMode'' \<mapsto> ''default''],
      manifest = Inr [''index.html'', ''runtimeConfig.json''],
      s3_copy = (\<lambda>source_bucket source_key bucket key. Some ''AccessDenied''),
      s3_put_object = (\<lambda>bucket key body. None),
      s3_put_bucket_logging = (\<lambda>bucket. None),
      s3_delete_all = (\<lambda>bucket. None),
      urlopen = (\<lambda>url body. None)\<rparr>"

text \<open>The same helper world, but every PUT of a response body raises.\<close>

definition undelivered_world :: helper_world where
  "undelivered_world =
     \<lparr>os_environ =
        [''UserPoolId'' \<mapsto> ''pool'', ''AwsRegion'' \<mapsto> ''us-east-1'',
         ''PoolClientId'' \<mapsto> ''client'', ''IdentityPoolId'' \<mapsto> ''identity'',
         ''DataBucketName'' \<mapsto> ''data'', ''ArtifactBucketName'' \<mapsto> ''artifacts'',
         ''EncryptionMode'' \<mapsto> ''default''],
      manifest = Inr [''index.html'', ''runtimeConfig.json''],
      s3_copy = (\<lambda>source_bucket source_key bucket key. Some ''AccessDenied''),
      s3_put_object = (\<lambda>bucket key body. None),
      s3_put_bucket_logging = (\<lambda>bucket. None),
      s3_delete_all = (\<lambda>bucket. None),
      urlopen = (\<lambda>url body. Some ''URLError'')\<rparr>"

section \<open>Digest lengths\<close>

lemma length_sha_rounds:
  "length v = 8 \<Longrightarrow> length (sha_rounds ks w v) = 8"
  by (induction ks arbitrary: w v) (simp_all add: Let_def)

lemma length_sha_compress:
  "length h = 8 \<Longrightarrow> length (sha_compress h block) = 8"
  by (simp add: sha_compress_def length_sha_rounds)

lemma length_sha_blocks:
  "length h = 8 \<Longrightarrow> length (sha_blocks n h bs) = 8"
  by (induction n arbitrary: h bs) (simp_all add: length_sha_compress)

lemma length_concat_be_bytes:
  "length (concat (map (be_bytes 4) (ws :: u32 list))) = 4 * length ws"
  by (induction ws) (simp_all add: be_bytes_def)

lemma length_sha256: "length (sha256 m) = 32"
  by (simp add: sha256_def Let_def length_concat_be_bytes length_sha_blocks H256_def)

lemma length_hmac_sha256: "length (hmac_sha256 key msg) = 32"
  by (simp add: hmac_sha256_def Let_def length_sha256)

lemma length_hex: "length (hex bs) = 2 * length bs"
  by (induction bs) (simp_all add: hex_def)

section \<open>Signing key derivation\<close>

text \<open>
  C1.  For every secret key, date stamp, region and service name, \<open>get_signature_key\<close>
  returns the result of the four-step HMAC-SHA256 chain: kDate is the HMAC of the date
  stamp under the UTF-8 bytes of "AWS4" followed by the secret key, kRegion the HMAC of the
  region under kDate, kService the HMAC of the service under kRegion, kSigning the HMAC of
  "aws4_request" under kService.  The value returned is the raw 32-byte digest of the last
  step (its hexadecimal form would have 64 characters).
\<close>

theorem get_signature_key_chain:
  "get_signature_key key date_stamp region_name service_name =
     hmac_sha256
       (hmac_sha256
         (hmac_sha256
           (hmac_sha256 (utf8 (''AWS4'' @ key)) (utf8 date_stamp))
           (utf8 region_name))
         (utf8 service_name))
       (utf8 ''aws4_request'')
   \<and> length (get_signature_key key date_stamp region_name service_name) = 32"
  by (simp add: get_signature_key_def sign_def Let_def length_hmac_sha256)

section \<open>Hexadecimal digests\<close>

lemma hex_digit_mem: "n < 16 \<Longrightarrow> hex_digit n \<in> set hex_alphabet"
  unfolding hex_digit_def by (rule nth_mem) (simp add: hex_alphabet_def)

lemma unat_high_nibble: "unat (drop_bit 4 (b :: byte)) < 16"
proof -
  have "unat b < 2 ^ LENGTH(8)"
    by (rule unsigned_less)
  then have small: "unat b < 256"
    by simp
  have shifted: "unat (drop_bit 4 b) = unat b div 16"
    unfolding unat_drop_bit_eq by (simp add: drop_bit_eq_div)
  have "unat b div 16 < 16"
    using small by arith
  then show ?thesis
    unfolding shifted .
qed

lemma unat_low_nibble: "unat ((b :: byte) AND 15) < 16"
proof -
  have "unat (b AND 15) \<le> unat (15 :: byte)"
    by (rule word_and_le1 [THEN word_le_nat_alt [THEN iffD1]])
  then show ?thesis by simp
qed

lemma set_hex: "set (hex bs) \<subseteq> set hex_alphabet"
proof (induction bs)
  case Nil
  show ?case by (simp add: hex_def)
next
  case (Cons b bs)
  have "hex (b # bs) = [hex_digit (unat (drop_bit 4 b)), hex_digit (unat (b AND 15))] @ hex bs"
    by (simp add: hex_def)
  with Cons hex_digit_mem [OF unat_high_nibble [of b]] hex_digit_mem [OF unat_low_nibble [of b]]
  show ?case by simp
qed

section \<open>The canonical request\<close>

lemma signed_header_names:
  "split_on (CHR '';'') SIGNED_HEADERS = [''host'', ''x-amz-date'', ''x-amz-security-token'']"
  by (simp add: SIGNED_HEADERS_def)

text \<open>
  C2.  For every domain name, amzdate and session token the canonical headers block is
  exactly "host:<domain>\n" "x-amz-date:<amzdate>\n" "x-amz-security-token:<token>\n": one
  line per name of the signed-headers list, in that order, each ended by one newline.  The
  names are lower-case and in strictly ascending code-point order.  In the canonical
  request that \<open>delete\<close>, \<open>get\<close> and \<open>post\<close> assemble, exactly one empty line stands
  between this block and the signed-headers field.
\<close>

theorem canonical_headers_block:
  "get_canonical_headers domain_name amz_date session_token
     = ''host:'' @ domain_name @ [CHR 0x0A] @ ''x-amz-date:'' @ amz_date @ [CHR 0x0A]
         @ ''x-amz-security-token:'' @ session_token @ [CHR 0x0A]
   \<and> get_canonical_headers domain_name amz_date session_token
     = concat (map2 (\<lambda>name v. name @ '':'' @ v @ [CHR 0x0A])
                (split_on (CHR '';'') SIGNED_HEADERS) [domain_name, amz_date, session_token])
   \<and> sorted_wrt str_less (split_on (CHR '';'') SIGNED_HEADERS)
   \<and> map (map lower_char) (split_on (CHR '';'') SIGNED_HEADERS)
     = split_on (CHR '';'') SIGNED_HEADERS
   \<and> canonical_request_spec ''DELETE'' domain_name session_token
        (delete_locals cfg region access_key secret_key session_token t endpoint domain_name)
   \<and> canonical_request_spec ''GET'' domain_name session_token
        (get_locals cfg region access_key secret_key session_token t endpoint domain_name
           request_parameters)
   \<and> canonical_request_spec ''POST'' domain_name session_token
        (post_locals cfg region access_key secret_key session_token t endpoint domain_name
           body_data)"
  by (simp add: signed_header_names get_canonical_headers_def lower_char_def
      canonical_request_spec_def delete_locals_def get_locals_def post_locals_def
      SIGNED_HEADERS_def Let_def)

section \<open>The payload hash\<close>

lemma payload_hash_specI:
  "payload_hash l = digest \<Longrightarrow> canonical_request l = pre @ digest \<Longrightarrow> payload_hash_spec digest l"
  by (simp add: payload_hash_spec_def)

lemma payload_hash_get:
  "payload_hash_spec (sha256_hexdigest [])
     (get_locals cfg region access_key secret_key session_token t endpoint domain_name
        request_parameters)"
  by (rule payload_hash_specI
        [where pre = "''GET'' @ [CHR 0x0A] @ ''/'' @ join ''/'' (drop 3 (split_on (CHR ''/'') endpoint))
           @ [CHR 0x0A] @ request_parameters @ [CHR 0x0A]
           @ get_canonical_headers domain_name (strftime_amzdate t) session_token
           @ [CHR 0x0A] @ SIGNED_HEADERS @ [CHR 0x0A]"])
     (simp_all add: get_locals_def Let_def utf8_def)

lemma payload_hash_delete:
  "payload_hash_spec (sha256_hexdigest [])
     (delete_locals cfg region access_key secret_key session_token t endpoint domain_name)"
  by (rule payload_hash_specI
        [where pre = "''DELETE'' @ [CHR 0x0A] @ ''/'' @ join ''/'' (drop 3 (split_on (CHR ''/'') endpoint))
           @ [CHR 0x0A] @ [] @ [CHR 0x0A]
           @ get_canonical_headers domain_name (strftime_amzdate t) session_token
           @ [CHR 0x0A] @ SIGNED_HEADERS @ [CHR 0x0A]"])
     (simp_all add: delete_locals_def Let_def utf8_def)

lemma payload_hash_post:
  "payload_hash_spec (hex (sha256 (utf8 body_data)))
     (post_locals cfg region access_key secret_key session_token t endpoint domain_name
        body_data)"
  by (rule payload_hash_specI
        [where pre = "''POST'' @ [CHR 0x0A] @ ''/'' @ join ''/'' (drop 3 (split_on (CHR ''/'') endpoint))
           @ [CHR 0x0A] @ [] @ [CHR 0x0A]
           @ get_canonical_headers domain_name (strftime_amzdate t) session_token
           @ [CHR 0x0A] @ SIGNED_HEADERS @ [CHR 0x0A]"])
     (simp_all add: post_locals_def Let_def sha256_hexdigest_def)

text \<open>The digest of the empty byte sequence, computed by the definitions above.\<close>

lemma sha256_hexdigest_empty:
  "sha256_hexdigest []
     = ''e3b0c44298fc1c149afbf4c8996fb92427ae41e4649b934ca495991b7852b855''"
  by code_simp

text \<open>
  C3.  The payload hash placed in the canonical request is the hexadecimal SHA-256 of
  the empty byte sequence, e3b0c44298fc1c149afbf4c8996fb92427ae41e4649b934ca495991b7852b855,
  for every GET and DELETE call; for every POST call with body b it is the hexadecimal
  SHA-256 of the UTF-8 bytes of b, whatever b holds.
\<close>

theorem payload_hash_of_each_call:
  "payload_hash_spec ''e3b0c44298fc1c149afbf4c8996fb92427ae41e4649b934ca495991b7852b855''
     (get_locals cfg region access_key secret_key session_token t endpoint domain_name
        request_parameters)
   \<and> payload_hash_spec ''e3b0c44298fc1c149afbf4c8996fb92427ae41e4649b934ca495991b7852b855''
     (delete_locals cfg region access_key secret_key session_token t endpoint domain_name)
   \<and> payload_hash_spec (hex (sha256 (utf8 body_data)))
     (post_locals cfg region access_key secret_key session_token t endpoint domain_name
        body_data)
   \<and> hex (sha256 []) = ''e3b0c44298fc1c149afbf4c8996fb92427ae41e4649b934ca495991b7852b855''"
  using payload_hash_get [of cfg region access_key secret_key session_token t endpoint
      domain_name request_parameters]
    payload_hash_delete [of cfg region access_key secret_key session_token t endpoint domain_name]
    payload_hash_post [of body_data cfg region access_key secret_key session_token t endpoint
      domain_name]
    sha256_hexdigest_def [of "[]"]
  unfolding sha256_hexdigest_empty by simp

section \<open>String to sign and signature\<close>

text \<open>
  C4.  For every signing call (\<open>delete\<close>, \<open>get\<close>, \<open>post\<close>) the string to sign is
  "AWS4-HMAC-SHA256", the amzdate, the credential scope and the hexadecimal SHA-256 of
  the canonical request, joined by newlines; the credential scope is the date stamp, the
  region, "execute-api" and "aws4_request" joined by "/"; the signature is the lowercase
  hexadecimal HMAC-SHA256 of the string to sign under the derived signing key, 64
  characters long.
\<close>

theorem string_to_sign_and_signature:
  "string_to_sign_spec region secret_key t
     (delete_locals cfg region access_key secret_key session_token t endpoint domain_name)
   \<and> string_to_sign_spec region secret_key t
     (get_locals cfg region access_key secret_key session_token t endpoint domain_name
        request_parameters)
   \<and> string_to_sign_spec region secret_key t
     (post_locals cfg region access_key secret_key session_token t endpoint domain_name
        body_data)"
  by (simp add: string_to_sign_spec_def delete_locals_def get_locals_def post_locals_def
      Let_def sha256_hexdigest_def hmac_sha256_hexdigest_def length_hex length_hmac_sha256
      set_hex)

section \<open>The dispatched request\<close>

lemma http_calls_append: "http_calls (xs @ ys) = http_calls xs @ http_calls ys"
  by (induction xs rule: http_calls.induct) simp_all

lemma http_calls_tokens: "http_calls (fst (get_amc_api_tokens cfg w)) = []"
  by (simp add: get_amc_api_tokens_def Let_def split: sum.splits)

lemma http_calls_send_request:
  "http_calls (fst (send_request w url hdrs meth body))
     = [\<lparr>http_method = meth, request_url = url, call_headers = hdrs,
         call_data = (if body = None \<or> body = Some [] then None else body)\<rparr>]"
  by (simp add: send_request_def Let_def split: sum.splits)

lemma tokens_result:
  "assume_role w (AMC_API_ROLE cfg) ''amcufa_api_handler'' = Inr creds
   \<Longrightarrow> snd (get_amc_api_tokens cfg w)
        = Inr (AccessKeyId creds, SecretAccessKey creds, SessionToken creds)"
  by (simp add: get_amc_api_tokens_def Let_def)

lemma delete_run:
  assumes "assume_role w (AMC_API_ROLE cfg) ''amcufa_api_handler'' = Inr creds"
    and "AccessKeyId creds = Some ak" and "SecretAccessKey creds = Some sk"
    and "environ w ''AWS_REGION'' = Some region"
    and "index (split_on (CHR ''/'') (AMC_ENDPOINT cfg @ path)) 2 = Inr dn"
  shows "delete cfg w path =
    (fst (get_amc_api_tokens cfg w)
       @ fst (send_request w (AMC_ENDPOINT cfg @ path)
                (headers (delete_locals cfg region ak sk (SessionToken creds) (utcnow w)
                            (AMC_ENDPOINT cfg @ path) dn)) ''delete'' None),
     snd (send_request w (AMC_ENDPOINT cfg @ path)
                (headers (delete_locals cfg region ak sk (SessionToken creds) (utcnow w)
                            (AMC_ENDPOINT cfg @ path) dn)) ''delete'' None))"
  using assms tokens_result [OF assms(1)]
  by (cases "get_amc_api_tokens cfg w") (simp add: delete_def lookup_def Let_def)

lemma get_run:
  assumes "assume_role w (AMC_API_ROLE cfg) ''amcufa_api_handler'' = Inr creds"
    and "AccessKeyId creds = Some ak" and "SecretAccessKey creds = Some sk"
    and "environ w ''AWS_REGION'' = Some region"
    and "index (split_on (CHR ''/'') (AMC_ENDPOINT cfg @ path)) 2 = Inr dn"
  shows "get cfg w path q =
    (fst (get_amc_api_tokens cfg w)
       @ fst (send_request w (AMC_ENDPOINT cfg @ path @ ''?'' @ q)
                (headers (get_locals cfg region ak sk (SessionToken creds) (utcnow w)
                            (AMC_ENDPOINT cfg @ path) dn q)) ''get'' None),
     snd (send_request w (AMC_ENDPOINT cfg @ path @ ''?'' @ q)
                (headers (get_locals cfg region ak sk (SessionToken creds) (utcnow w)
                            (AMC_ENDPOINT cfg @ path) dn q)) ''get'' None))"
proof -
  have q: "canonical_querystring (get_locals cfg region ak sk (SessionToken creds) (utcnow w)
             (AMC_ENDPOINT cfg @ path) dn q) = q"
    by (simp add: get_locals_def Let_def)
  show ?thesis
    using assms tokens_result [OF assms(1)]
    by (cases "get_amc_api_tokens cfg w") (simp add: get_def lookup_def Let_def q)
qed

lemma post_run:
  assumes "assume_role w (AMC_API_ROLE cfg) ''amcufa_api_handler'' = Inr creds"
    and "AccessKeyId creds = Some ak" and "SecretAccessKey creds = Some sk"
    and "environ w ''AWS_REGION'' = Some region"
    and "index (split_on (CHR ''/'') (AMC_ENDPOINT cfg @ path)) 2 = Inr dn"
  shows "post cfg w path b =
    (fst (get_amc_api_tokens cfg w)
       @ fst (send_request w (AMC_ENDPOINT cfg @ path)
                (headers (post_locals cfg region ak sk (SessionToken creds) (utcnow w)
                            (AMC_ENDPOINT cfg @ path) dn b)) ''post'' (Some b)),
     snd (send_request w (AMC_ENDPOINT cfg @ path)
                (headers (post_locals cfg region ak sk (SessionToken creds) (utcnow w)
                            (AMC_ENDPOINT cfg @ path) dn b)) ''post'' (Some b)))"
  using assms tokens_result [OF assms(1)]
  by (cases "get_amc_api_tokens cfg w") (simp add: post_def lookup_def Let_def)

text \<open>
  C5.  For every signing call that reaches dispatch (STS returned both keys, the region
  is set, the endpoint has a host part), the Authorization header is
  "AWS4-HMAC-SHA256 Credential=<access_key>/<scope>,
  SignedHeaders=host;x-amz-date;x-amz-security-token, Signature=<signature>", and the
  headers sent with the one request are exactly Authorization, x-amz-date,
  x-amz-security-token, x-amzn-service-name (the solution name) and
  x-amzn-service-version (the solution version).
\<close>

theorem authorization_header_and_header_set:
  assumes "assume_role w (AMC_API_ROLE cfg) ''amcufa_api_handler'' = Inr creds"
    and "AccessKeyId creds = Some ak" and "SecretAccessKey creds = Some sk"
    and "environ w ''AWS_REGION'' = Some region"
    and "index (split_on (CHR ''/'') (AMC_ENDPOINT cfg @ path)) 2 = Inr dn"
  shows "authorization_spec cfg ak (SessionToken creds)
           (delete_locals cfg region ak sk (SessionToken creds) (utcnow w)
              (AMC_ENDPOINT cfg @ path) dn)
           (http_calls (fst (delete cfg w path)))
       \<and> authorization_spec cfg ak (SessionToken creds)
           (get_locals cfg region ak sk (SessionToken creds) (utcnow w)
              (AMC_ENDPOINT cfg @ path) dn request_parameters)
           (http_calls (fst (get cfg w path request_parameters)))
       \<and> authorization_spec cfg ak (SessionToken creds)
           (post_locals cfg region ak sk (SessionToken creds) (utcnow w)
              (AMC_ENDPOINT cfg @ path) dn body_data)
           (http_calls (fst (post cfg w path body_data)))"
proof (intro conjI)
  show "authorization_spec cfg ak (SessionToken creds)
           (delete_locals cfg region ak sk (SessionToken creds) (utcnow w)
              (AMC_ENDPOINT cfg @ path) dn)
           (http_calls (fst (delete cfg w path)))"
    unfolding delete_run [OF assms]
    by (simp add: authorization_spec_def http_calls_append http_calls_tokens
        http_calls_send_request)
       (simp add: delete_locals_def Let_def get_authorization_header_def SIGNED_HEADERS_def)
  show "authorization_spec cfg ak (SessionToken creds)
           (get_locals cfg region ak sk (SessionToken creds) (utcnow w)
              (AMC_ENDPOINT cfg @ path) dn request_parameters)
           (http_calls (fst (get cfg w path request_parameters)))"
    unfolding get_run [OF assms]
    by (simp add: authorization_spec_def http_calls_append http_calls_tokens
        http_calls_send_request)
       (simp add: get_locals_def Let_def get_authorization_header_def SIGNED_HEADERS_def)
  show "authorization_spec cfg ak (SessionToken creds)
           (post_locals cfg region ak sk (SessionToken creds) (utcnow w)
              (AMC_ENDPOINT cfg @ path) dn body_data)
           (http_calls (fst (post cfg w path body_data)))"
    unfolding post_run [OF assms]
    by (simp add: authorization_spec_def http_calls_append http_calls_tokens
        http_calls_send_request)
       (simp add: post_locals_def Let_def get_authorization_header_def SIGNED_HEADERS_def)
qed

text \<open>
  C6.  For every GET call that reaches dispatch the canonical query string is the
  caller's \<open>request_parameters\<close> and the URL is the endpoint, "?" and that string; for
  every POST and DELETE call the canonical query string is empty and the URL is the
  endpoint unchanged; the POST body, if not empty, is sent as it is.
\<close>

theorem query_string_and_dispatched_url:
  assumes "assume_role w (AMC_API_ROLE cfg) ''amcufa_api_handler'' = Inr creds"
    and "AccessKeyId creds = Some ak" and "SecretAccessKey creds = Some sk"
    and "environ w ''AWS_REGION'' = Some region"
    and "index (split_on (CHR ''/'') (AMC_ENDPOINT cfg @ path)) 2 = Inr dn"
  shows "dispatch_spec ''get'' (AMC_ENDPOINT cfg @ path @ ''?'' @ request_parameters)
           request_parameters None
           (get_locals cfg region ak sk (SessionToken creds) (utcnow w)
              (AMC_ENDPOINT cfg @ path) dn request_parameters)
           (http_calls (fst (get cfg w path request_parameters)))
       \<and> dispatch_spec ''post'' (AMC_ENDPOINT cfg @ path) []
           (if body_data = [] then None else Some body_data)
           (post_locals cfg region ak sk (SessionToken creds) (utcnow w)
              (AMC_ENDPOINT cfg @ path) dn body_data)
           (http_calls (fst (post cfg w path body_data)))
       \<and> dispatch_spec ''delete'' (AMC_ENDPOINT cfg @ path) [] None
           (delete_locals cfg region ak sk (SessionToken creds) (utcnow w)
              (AMC_ENDPOINT cfg @ path) dn)
           (http_calls (fst (delete cfg w path)))"
proof (intro conjI)
  show "dispatch_spec ''get'' (AMC_ENDPOINT cfg @ path @ ''?'' @ request_parameters)
           request_parameters None
           (get_locals cfg region ak sk (SessionToken creds) (utcnow w)
              (AMC_ENDPOINT cfg @ path) dn request_parameters)
           (http_calls (fst (get cfg w path request_parameters)))"
    unfolding get_run [OF assms]
    by (simp add: dispatch_spec_def http_calls_append http_calls_tokens
        http_calls_send_request)
       (simp add: get_locals_def Let_def)
  show "dispatch_spec ''post'' (AMC_ENDPOINT cfg @ path) []
           (if body_data = [] then None else Some body_data)
           (post_locals cfg region ak sk (SessionToken creds) (utcnow w)
              (AMC_ENDPOINT cfg @ path) dn body_data)
           (http_calls (fst (post cfg w path body_data)))"
    unfolding post_run [OF assms]
    by (simp add: dispatch_spec_def http_calls_append http_calls_tokens
        http_calls_send_request)
       (simp add: post_locals_def Let_def)
  show "dispatch_spec ''delete'' (AMC_ENDPOINT cfg @ path) [] None
           (delete_locals cfg region ak sk (SessionToken creds) (utcnow w)
              (AMC_ENDPOINT cfg @ path) dn)
           (http_calls (fst (delete cfg w path)))"
    unfolding delete_run [OF assms]
    by (simp add: dispatch_spec_def http_calls_append http_calls_tokens
        http_calls_send_request)
       (simp add: delete_locals_def Let_def)
qed

lemma example_endpoint:
  "index (split_on (CHR ''/'') (AMC_ENDPOINT example_config @ ''/workflows'')) 2
     = Inr ''abc123.execute-api.us-east-1.amazonaws.com''"
  by (simp add: example_config_def index_def)

lemma example_credentials:
  "assume_role (example_world (Some ''AKIDEXAMPLE'') (Some ''secret''))
       (AMC_API_ROLE example_config) ''amcufa_api_handler''
     = Inr \<lparr>AccessKeyId = Some ''AKIDEXAMPLE'', SecretAccessKey = Some ''secret'',
            SessionToken = ''token''\<rparr>"
  by (simp add: example_world_def)

lemma example_region:
  "environ (example_world access_key secret_key) ''AWS_REGION'' = Some ''us-east-1''"
  by (simp add: example_world_def)

theorem authorization_header_and_header_set_witness:
  "assume_role (example_world (Some ''AKIDEXAMPLE'') (Some ''secret''))
       (AMC_API_ROLE example_config) ''amcufa_api_handler''
     = Inr \<lparr>AccessKeyId = Some ''AKIDEXAMPLE'', SecretAccessKey = Some ''secret'',
            SessionToken = ''token''\<rparr>
   \<and> environ (example_world (Some ''AKIDEXAMPLE'') (Some ''secret'')) ''AWS_REGION''
     = Some ''us-east-1''
   \<and> index (split_on (CHR ''/'') (AMC_ENDPOINT example_config @ ''/workflows'')) 2
     = Inr ''abc123.execute-api.us-east-1.amazonaws.com''
   \<and> map (map fst) (map call_headers
         (http_calls (fst (get example_config
                             (example_world (Some ''AKIDEXAMPLE'') (Some ''secret''))
                             ''/workflows'' ''limit=5''))))
     = [[''Authorization'', ''x-amz-date'', ''x-amz-security-token'',
         ''x-amzn-service-name'', ''x-amzn-service-version'']]"
proof -
  have "authorization_spec example_config ''AKIDEXAMPLE'' ''token''
          (get_locals example_config ''us-east-1'' ''AKIDEXAMPLE'' ''secret'' ''token''
             (utcnow (example_world (Some ''AKIDEXAMPLE'') (Some ''secret'')))
             (AMC_ENDPOINT example_config @ ''/workflows'')
             ''abc123.execute-api.us-east-1.amazonaws.com'' ''limit=5'')
          (http_calls (fst (get example_config
                              (example_world (Some ''AKIDEXAMPLE'') (Some ''secret''))
                              ''/workflows'' ''limit=5'')))"
    using authorization_header_and_header_set
      [OF example_credentials _ _ example_region example_endpoint,
       of "''AKIDEXAMPLE''" "''secret''" "''limit=5''" "''[1, 2]''"]
    by simp
  then have "map (map fst) (map call_headers
         (http_calls (fst (get example_config
                             (example_world (Some ''AKIDEXAMPLE'') (Some ''secret''))
                             ''/workflows'' ''limit=5''))))
     = [[''Authorization'', ''x-amz-date'', ''x-amz-security-token'',
         ''x-amzn-service-name'', ''x-amzn-service-version'']]"
    unfolding authorization_spec_def by simp
  with example_credentials example_region example_endpoint show ?thesis
    by simp
qed

theorem query_string_and_dispatched_url_witness:
  "assume_role (example_world (Some ''AKIDEXAMPLE'') (Some ''secret''))
       (AMC_API_ROLE example_config) ''amcufa_api_handler''
     = Inr \<lparr>AccessKeyId = Some ''AKIDEXAMPLE'', SecretAccessKey = Some ''secret'',
            SessionToken = ''token''\<rparr>
   \<and> environ (example_world (Some ''AKIDEXAMPLE'') (Some ''secret'')) ''AWS_REGION''
     = Some ''us-east-1''
   \<and> index (split_on (CHR ''/'') (AMC_ENDPOINT example_config @ ''/workflows'')) 2
     = Inr ''abc123.execute-api.us-east-1.amazonaws.com''
   \<and> map request_url
         (http_calls (fst (get example_config
                             (example_world (Some ''AKIDEXAMPLE'') (Some ''secret''))
                             ''/workflows'' ''limit=5'')))
     = [''https://abc123.execute-api.us-east-1.amazonaws.com/prod/workflows?limit=5'']
   \<and> map request_url
         (http_calls (fst (post example_config
                             (example_world (Some ''AKIDEXAMPLE'') (Some ''secret''))
                             ''/workflows'' ''[1, 2]'')))
     = [''https://abc123.execute-api.us-east-1.amazonaws.com/prod/workflows'']
   \<and> map call_data
         (http_calls (fst (post example_config
                             (example_world (Some ''AKIDEXAMPLE'') (Some ''secret''))
                             ''/workflows'' ''[1, 2]'')))
     = [Some ''[1, 2]'']
   \<and> map request_url
         (http_calls (fst (delete example_config
                             (example_world (Some ''AKIDEXAMPLE'') (Some ''secret''))
                             ''/workflows'')))
     = [''https://abc123.execute-api.us-east-1.amazonaws.com/prod/workflows'']"
proof -
  note run = query_string_and_dispatched_url
      [OF example_credentials _ _ example_region example_endpoint,
       of "''AKIDEXAMPLE''" "''secret''" "''limit=5''" "''[1, 2]''"]
  have "map request_url
         (http_calls (fst (get example_config
                             (example_world (Some ''AKIDEXAMPLE'') (Some ''secret''))
                             ''/workflows'' ''limit=5'')))
     = [''https://abc123.execute-api.us-east-1.amazonaws.com/prod/workflows?limit=5'']"
    using run unfolding dispatch_spec_def by (simp add: example_config_def)
  moreover have "map request_url
         (http_calls (fst (post example_config
                             (example_world (Some ''AKIDEXAMPLE'') (Some ''secret''))
                             ''/workflows'' ''[1, 2]'')))
     = [''https://abc123.execute-api.us-east-1.amazonaws.com/prod/workflows'']"
    using run unfolding dispatch_spec_def by (simp add: example_config_def)
  moreover have "map call_data
         (http_calls (fst (post example_config
                             (example_world (Some ''AKIDEXAMPLE'') (Some ''secret''))
                             ''/workflows'' ''[1, 2]'')))
     = [Some ''[1, 2]'']"
    using run unfolding dispatch_spec_def by simp
  moreover have "map request_url
         (http_calls (fst (delete example_config
                             (example_world (Some ''AKIDEXAMPLE'') (Some ''secret''))
                             ''/workflows'')))
     = [''https://abc123.execute-api.us-east-1.amazonaws.com/prod/workflows'']"
    using run unfolding dispatch_spec_def by (simp add: example_config_def)
  ultimately show ?thesis
    using example_credentials example_region example_endpoint by simp
qed

section \<open>Aborted calls\<close>

lemma tokens_events:
  "fst (get_amc_api_tokens cfg w)
     = [Log INFO (''assuming role '' @ AMC_API_ROLE cfg),
        AssumeRole (AMC_API_ROLE cfg) ''amcufa_api_handler'']"
  by (simp add: get_amc_api_tokens_def Let_def split: sum.splits)

text \<open>
  C7, as the code has it.  For every call to \<open>delete\<close>, \<open>get\<close> or \<open>post\<close> in which
  the access key or the secret key returned by STS is \<open>None\<close>, the operation ends with
  an exception before any signing or dispatch, and no request is sent: \<open>SystemExit\<close>
  when the region is set and the endpoint has at least three parts, otherwise the
  \<open>KeyError\<close> or \<open>IndexError\<close> that the code meets first.
\<close>

theorem missing_key_aborts:
  assumes "assume_role w (AMC_API_ROLE cfg) ''amcufa_api_handler'' = Inr creds"
    and "AccessKeyId creds = None \<or> SecretAccessKey creds = None"
  shows "aborts_without_request cfg w path (delete cfg w path)
       \<and> aborts_without_request cfg w path (get cfg w path request_parameters)
       \<and> aborts_without_request cfg w path (post cfg w path body_data)"
  using assms tokens_result [OF assms(1)] http_calls_tokens [of cfg w]
  by (cases "get_amc_api_tokens cfg w")
     (auto simp add: aborts_without_request_def delete_def get_def post_def lookup_def
        index_def Let_def http_calls_append split: option.splits)

theorem missing_key_aborts_witness:
  "assume_role (example_world None (Some ''secret''))
       (AMC_API_ROLE example_config) ''amcufa_api_handler''
     = Inr \<lparr>AccessKeyId = None, SecretAccessKey = Some ''secret'', SessionToken = ''token''\<rparr>
   \<and> http_calls (fst (get example_config (example_world None (Some ''secret''))
                         ''/workflows'' ''limit=5'')) = []
   \<and> snd (get example_config (example_world None (Some ''secret''))
             ''/workflows'' ''limit=5'') = Inl SystemExit"
proof -
  have creds: "assume_role (example_world None (Some ''secret''))
       (AMC_API_ROLE example_config) ''amcufa_api_handler''
     = Inr \<lparr>AccessKeyId = None, SecretAccessKey = Some ''secret'', SessionToken = ''token''\<rparr>"
    by (simp add: example_world_def)
  have parts: "length (split_on (CHR ''/'') (AMC_ENDPOINT example_config @ ''/workflows'')) = 5"
    by (simp add: example_config_def)
  have "aborts_without_request example_config (example_world None (Some ''secret''))
          ''/workflows''
          (get example_config (example_world None (Some ''secret'')) ''/workflows'' ''limit=5'')"
    using missing_key_aborts [OF creds, of "''/workflows''" "''limit=5''" "''[1, 2]''"]
    by simp
  then show ?thesis
    using creds by (simp add: aborts_without_request_def example_region parts)
qed

text \<open>
  C7 as stated also covers empty keys.  The guard tests \<open>is None\<close> only: with both
  keys the empty string, \<open>get\<close> signs, sends the request and returns the response.
\<close>

theorem empty_key_is_not_rejected:
  "map request_url
     (http_calls (fst (get example_config (example_world (Some []) (Some []))
                         ''/workflows'' ''limit=5'')))
     = [''https://abc123.execute-api.us-east-1.amazonaws.com/prod/workflows?limit=5'']
   \<and> snd (get example_config (example_world (Some []) (Some [])) ''/workflows'' ''limit=5'')
     = Inr \<lparr>status_code = 200, response_text = ''{}''\<rparr>"
proof -
  have creds: "assume_role (example_world (Some []) (Some []))
       (AMC_API_ROLE example_config) ''amcufa_api_handler''
     = Inr \<lparr>AccessKeyId = Some [], SecretAccessKey = Some [], SessionToken = ''token''\<rparr>"
    by (simp add: example_world_def)
  note run = get_run [OF creds _ _ example_region example_endpoint, of "[]" "[]" "''limit=5''"]
  have "http (example_world (Some []) (Some [])) call
          = Inr \<lparr>status_code = 200, response_text = ''{}''\<rparr>" for call
    by (simp add: example_world_def)
  then show ?thesis
    unfolding run [simplified]
    by (simp add: http_calls_append http_calls_tokens http_calls_send_request)
       (simp add: send_request_def Let_def example_config_def)
qed

text \<open>
  C8, as the code has it.  For every call whose endpoint (the configured base URL
  followed by the path) has fewer than three parts when split at "/", once STS has
  answered and the region is read, the operation raises \<open>IndexError\<close>; the call to STS
  is the only network I/O and no HTTP request is dispatched.
\<close>

theorem malformed_endpoint_index_error:
  assumes "assume_role w (AMC_API_ROLE cfg) ''amcufa_api_handler'' = Inr creds"
    and "environ w ''AWS_REGION'' = Some region"
    and "length (split_on (CHR ''/'') (AMC_ENDPOINT cfg @ path)) < 3"
  shows "delete cfg w path
           = ([Log INFO (''assuming role '' @ AMC_API_ROLE cfg),
               AssumeRole (AMC_API_ROLE cfg) ''amcufa_api_handler''], Inl IndexError)
       \<and> get cfg w path request_parameters
           = ([Log INFO (''assuming role '' @ AMC_API_ROLE cfg),
               AssumeRole (AMC_API_ROLE cfg) ''amcufa_api_handler''], Inl IndexError)
       \<and> post cfg w path body_data
           = ([Log INFO (''assuming role '' @ AMC_API_ROLE cfg),
               AssumeRole (AMC_API_ROLE cfg) ''amcufa_api_handler''], Inl IndexError)"
  using assms tokens_result [OF assms(1)] tokens_events [of cfg w]
  by (cases "get_amc_api_tokens cfg w")
     (simp add: delete_def get_def post_def lookup_def index_def Let_def)

theorem malformed_endpoint_index_error_witness:
  "assume_role (example_world (Some ''AKIDEXAMPLE'') (Some ''secret''))
       (AMC_API_ROLE malformed_config) ''amcufa_api_handler''
     = Inr \<lparr>AccessKeyId = Some ''AKIDEXAMPLE'', SecretAccessKey = Some ''secret'',
            SessionToken = ''token''\<rparr>
   \<and> environ (example_world (Some ''AKIDEXAMPLE'') (Some ''secret'')) ''AWS_REGION''
     = Some ''us-east-1''
   \<and> length (split_on (CHR ''/'') (AMC_ENDPOINT malformed_config @ ''/workflows'')) < 3
   \<and> post malformed_config (example_world (Some ''AKIDEXAMPLE'') (Some ''secret''))
        ''/workflows'' ''[1, 2]''
     = ([Log INFO (''assuming role '' @ AMC_API_ROLE malformed_config),
         AssumeRole (AMC_API_ROLE malformed_config) ''amcufa_api_handler''], Inl IndexError)"
proof -
  have creds: "assume_role (example_world (Some ''AKIDEXAMPLE'') (Some ''secret''))
       (AMC_API_ROLE malformed_config) ''amcufa_api_handler''
     = Inr \<lparr>AccessKeyId = Some ''AKIDEXAMPLE'', SecretAccessKey = Some ''secret'',
            SessionToken = ''token''\<rparr>"
    by (simp add: example_world_def)
  have parts: "length (split_on (CHR ''/'') (AMC_ENDPOINT malformed_config @ ''/workflows'')) < 3"
    by (simp add: malformed_config_def)
  from malformed_endpoint_index_error [OF creds example_region parts, of "''limit=5''" "''[1, 2]''"]
  show ?thesis
    using creds example_region parts by simp
qed

text \<open>
  C8 as stated puts the abort before any network I/O.  The credentials are fetched
  first: with the endpoint "abc123.execute-api.us-east-1.amazonaws.com/workflows" the
  trace of \<open>delete\<close> holds the call to STS, and the exception is \<open>IndexError\<close>.
\<close>

theorem sts_is_called_before_the_endpoint_is_split:
  "filter is_network
     (fst (delete malformed_config (example_world (Some ''AKIDEXAMPLE'') (Some ''secret''))
             ''/workflows''))
     = [AssumeRole ''arn:aws:iam::123456789012:role/amc-api'' ''amcufa_api_handler'']
   \<and> snd (delete malformed_config (example_world (Some ''AKIDEXAMPLE'') (Some ''secret''))
             ''/workflows'') = Inl IndexError"
  by (simp add: delete_def get_amc_api_tokens_def Let_def example_world_def malformed_config_def
      lookup_def index_def)

section \<open>The deployment helper\<close>

lemma send_response_delivered:
  assumes "StackId event = Some stack_id" and "RequestId event = Some request_id"
    and "LogicalResourceId event = Some logical_resource_id"
    and "ResponseURL event = Some url"
    and "urlopen w url
           (response_body (log_stream_name ctx) stack_id request_id logical_resource_id
              response_status response_data) = None"
  shows "send_response w event ctx response_status response_data
           = ([CfnPut url (response_body (log_stream_name ctx) stack_id request_id
                             logical_resource_id response_status response_data)], Inr ())"
  using assms by (simp add: send_response_def Let_def)

text \<open>
  C10, as the code has it.  In the deployment helper, a run of \<open>copy_source\<close> that got
  past the extraction of the event fields, and whose response callbacks are delivered
  (the event carries StackId, RequestId, LogicalResourceId and ResponseURL, and the PUT
  does not raise), ends by sending a SUCCESS response to CloudFormation, also when an
  exception during the copy has already caused a FAILED response to be sent: the calls
  are those of the copy, then the FAILED response if the copy raised, then the SUCCESS
  response.  A failing Create or Update whose callbacks are delivered so emits FAILED and
  then SUCCESS.
\<close>

theorem copy_source_sends_success_after_failed:
  assumes "copy_source_values event = Inr (source_bucket, source_key, website_bucket)"
    and "StackId event = Some stack_id" and "RequestId event = Some request_id"
    and "LogicalResourceId event = Some logical_resource_id"
    and "ResponseURL event = Some url"
    and "\<And>body. urlopen w url body = None"
  shows "copy_source w event ctx =
     (fst (copy_body w event ctx source_bucket source_key website_bucket)
        @ (case snd (copy_body w event ctx source_bucket source_key website_bucket) of
             Inl ex \<Rightarrow>
               [CfnPut url
                  (response_body (log_stream_name ctx) stack_id request_id logical_resource_id
                     ''FAILED'' (Obj [(''Message'', Str error_response_str)]))]
           | Inr _ \<Rightarrow> [])
        @ [CfnPut url
             (response_body (log_stream_name ctx) stack_id request_id logical_resource_id
                ''SUCCESS'' (Obj [(''Message'', Str ''Resource creation successful!'')]))],
      Inr ())"
proof -
  have sent: "send_response w event ctx st d
                = ([CfnPut url (response_body (log_stream_name ctx) stack_id request_id
                                  logical_resource_id st d)], Inr ())" for st d
    using assms(2-6) by (rule send_response_delivered)
  show ?thesis
  proof (cases "snd (copy_body w event ctx source_bucket source_key website_bucket)")
    case (Inl ex)
    then show ?thesis
      by (simp add: copy_source_def assms(1) Let_def sent)
  next
    case (Inr u)
    then show ?thesis
      by (simp add: copy_source_def assms(1) Let_def sent)
  qed
qed

lemma example_values:
  "copy_source_values example_event
     = Inr (''solutions-bucket'', ''amcufa/v1.0.0/website'', ''web-bucket'')"
  by (simp add: copy_source_values_def example_event_def index_def)

lemma failing_copy_body:
  "copy_body failing_copy_world example_event example_context
       ''solutions-bucket'' ''amcufa/v1.0.0/website'' ''web-bucket''
     = ([S3Copy ''solutions-bucket'' ''amcufa/v1.0.0/website/index.html'' ''web-bucket''
           ''index.html''],
        Inl (ServiceError ''AccessDenied''))"
  by (simp add: copy_body_def failing_copy_world_def)

theorem copy_source_sends_success_after_failed_witness:
  "copy_source_values example_event
     = Inr (''solutions-bucket'', ''amcufa/v1.0.0/website'', ''web-bucket'')
   \<and> urlopen failing_copy_world
         ''https://cloudformation-custom-resource-response.example/put''
         (Obj [(''Message'', Str error_response_str)]) = None
   \<and> snd (copy_body failing_copy_world example_event example_context
             ''solutions-bucket'' ''amcufa/v1.0.0/website'' ''web-bucket'')
       = Inl (ServiceError ''AccessDenied'')
   \<and> statuses (fst (copy_source failing_copy_world example_event example_context))
       = [''FAILED'', ''SUCCESS'']
   \<and> statuses (fst (lambda_handler failing_copy_world example_event example_context))
       = [''FAILED'', ''SUCCESS'']
   \<and> snd (lambda_handler failing_copy_world example_event example_context) = Inr ()"
proof -
  have delivered: "urlopen failing_copy_world
         ''https://cloudformation-custom-resource-response.example/put'' body = None" for body
    by (simp add: failing_copy_world_def)
  have stack: "StackId example_event
                 = Some ''arn:aws:cloudformation:us-east-1:123456789012:stack/amcufa/1''"
    and request: "RequestId example_event = Some ''request-1''"
    and logical: "LogicalResourceId example_event = Some ''CopyWebSource''"
    and url: "ResponseURL example_event
                = Some ''https://cloudformation-custom-resource-response.example/put''"
    by (simp_all add: example_event_def)
  note run = copy_source_sends_success_after_failed
    [OF example_values stack request logical url delivered, of example_context]
  have copied: "copy_source failing_copy_world example_event example_context
    = ([S3Copy ''solutions-bucket'' ''amcufa/v1.0.0/website/index.html'' ''web-bucket''
           ''index.html'',
        CfnPut ''https://cloudformation-custom-resource-response.example/put''
          (response_body (log_stream_name example_context)
             ''arn:aws:cloudformation:us-east-1:123456789012:stack/amcufa/1''
             ''request-1'' ''CopyWebSource'' ''FAILED''
             (Obj [(''Message'', Str error_response_str)])),
        CfnPut ''https://cloudformation-custom-resource-response.example/put''
          (response_body (log_stream_name example_context)
             ''arn:aws:cloudformation:us-east-1:123456789012:stack/amcufa/1''
             ''request-1'' ''CopyWebSource'' ''SUCCESS''
             (Obj [(''Message'', Str ''Resource creation successful!'')]))],
       Inr ())"
    unfolding run by (simp add: failing_copy_body)
  have handled: "lambda_handler failing_copy_world example_event example_context
                   = copy_source failing_copy_world example_event example_context"
    unfolding lambda_handler_def copied by (simp add: example_event_def)
  show ?thesis
    unfolding handled unfolding copied
    by (simp add: example_values failing_copy_body delivered response_body_def)
qed

text \<open>
  C10 as stated says that the SUCCESS response is always sent.  The FAILED response is
  sent inside the exception handler: when that PUT raises, the exception leaves
  \<open>copy_source\<close> before the SUCCESS response is reached.  A Create whose copy raises
  and whose callbacks raise emits FAILED alone from \<open>copy_source\<close>, and a second FAILED
  from the handler of \<open>lambda_handler\<close>.
\<close>

theorem failed_callback_that_raises_ends_copy_source:
  "copy_source_values example_event
     = Inr (''solutions-bucket'', ''amcufa/v1.0.0/website'', ''web-bucket'')
   \<and> snd (copy_body undelivered_world example_event example_context
             ''solutions-bucket'' ''amcufa/v1.0.0/website'' ''web-bucket'')
       = Inl (ServiceError ''AccessDenied'')
   \<and> statuses (fst (copy_source undelivered_world example_event example_context))
       = [''FAILED'']
   \<and> snd (copy_source undelivered_world example_event example_context)
       = Inl (ServiceError ''URLError'')
   \<and> statuses (fst (lambda_handler undelivered_world example_event example_context))
       = [''FAILED'', ''FAILED'']"
proof -
  have body: "copy_body undelivered_world example_event example_context
       ''solutions-bucket'' ''amcufa/v1.0.0/website'' ''web-bucket''
     = ([S3Copy ''solutions-bucket'' ''amcufa/v1.0.0/website/index.html'' ''web-bucket''
           ''index.html''],
        Inl (ServiceError ''AccessDenied''))"
    by (simp add: copy_body_def undelivered_world_def)
  have sent: "send_response undelivered_world example_event example_context st d
     = ([CfnPut ''https://cloudformation-custom-resource-response.example/put''
           (response_body (log_stream_name example_context)
              ''arn:aws:cloudformation:us-east-1:123456789012:stack/amcufa/1''
              ''request-1'' ''CopyWebSource'' st d)],
        Inl (ServiceError ''URLError''))" for st d
    by (simp add: send_response_def example_event_def undelivered_world_def Let_def)
  have copied: "copy_source undelivered_world example_event example_context
     = ([S3Copy ''solutions-bucket'' ''amcufa/v1.0.0/website/index.html'' ''web-bucket''
           ''index.html'',
         CfnPut ''https://cloudformation-custom-resource-response.example/put''
           (response_body (log_stream_name example_context)
              ''arn:aws:cloudformation:us-east-1:123456789012:stack/amcufa/1''
              ''request-1'' ''CopyWebSource'' ''FAILED''
              (Obj [(''Message'', Str error_response_str)]))],
        Inl (ServiceError ''URLError''))"
    by (simp add: copy_source_def example_values body sent Let_def)
  have request_type: "RequestType example_event = Some ''Create''"
    by (simp add: example_event_def)
  have handled: "statuses (fst (lambda_handler undelivered_world example_event example_context))
       = [''FAILED'', ''FAILED'']"
    by (simp add: lambda_handler_def request_type copied sent Let_def response_body_def)
  show ?thesis
    using handled by (simp add: example_values body copied response_body_def)
qed

end
